theory Spec2Isabelle
  imports Main
begin

section \<open>Values and errors of the generator\<close>

text \<open>
  The generator (\<^verbatim>\<open>src/lib/gqlgen.js\<close>) is JavaScript. Two kinds of failure occur
  in it: an explicit \<^verbatim>\<open>throw new Error(msg)\<close>, and the runtime's TypeError for
  reading a property of \<^verbatim>\<open>undefined\<close>. \<open>TypeError p\<close> stands for
  "Cannot read property p of undefined".
\<close>

datatype error = Error string | TypeError string

text \<open>
  The value stored in a record's \<^verbatim>\<open>type\<close> property is the result of
  \<^verbatim>\<open>scalarMap[graphqlType] || graphqlType\<close>. It is a string, or, because
  \<^verbatim>\<open>scalarMap\<close> is an object literal, a member that the literal inherits from
  \<^verbatim>\<open>Object.prototype\<close> (a function, or the prototype object for
  \<^verbatim>\<open>__proto__\<close>); \<open>JInherited k\<close> is the inherited member under key \<open>k\<close>.
\<close>

datatype js_value = JString string | JInherited string

section \<open>Module constants\<close>

definition graphqlArtifactNames :: "string list" where
  "graphqlArtifactNames = [''Query'', ''Mutation'', ''Subscription'', ''root'']"

definition scalarMap :: "(string \<times> string) list" where
  "scalarMap =
     [(''ID'', ''string''),
      (''String'', ''string''),
      (''Float'', ''number''),
      (''Int'', ''number''),
      (''Boolean'', ''boolean''),
      (''DateTime'', ''Date''),
      (''Dictionary'', ''{ [key: string]: any }'')]"

text \<open>The property names every object literal inherits from \<^verbatim>\<open>Object.prototype\<close>.\<close>

definition objectPrototypeKeys :: "string list" where
  "objectPrototypeKeys =
     [''constructor'', ''__defineGetter__'', ''__defineSetter__'', ''hasOwnProperty'',
      ''__lookupGetter__'', ''__lookupSetter__'', ''isPrototypeOf'',
      ''propertyIsEnumerable'', ''toString'', ''valueOf'', ''__proto__'',
      ''toLocaleString'']"

text \<open>
  \<^verbatim>\<open>obj[key]\<close> on an object literal: the literal's own property, else the inherited
  member, else \<^verbatim>\<open>undefined\<close> (\<open>None\<close>).
\<close>

definition getProperty :: "(string \<times> string) list \<Rightarrow> string \<Rightarrow> js_value option" where
  "getProperty obj key =
     (case map_of obj key of
        Some v \<Rightarrow> Some (JString v)
      | None \<Rightarrow> if key \<in> set objectPrototypeKeys then Some (JInherited key) else None)"

fun truthy :: "js_value \<Rightarrow> bool" where
  "truthy (JString s) = (s \<noteq> [])"
| "truthy (JInherited k) = True"

text \<open>The scalar mapper, \<^verbatim>\<open>scalarMap[graphqlType] || graphqlType\<close>.\<close>

definition scalarMapped :: "string \<Rightarrow> js_value" where
  "scalarMapped graphqlType =
     (case getProperty scalarMap graphqlType of
        Some v \<Rightarrow> if truthy v then v else JString graphqlType
      | None \<Rightarrow> JString graphqlType)"

text \<open>\<^verbatim>\<open>x.description && x.description.value || ''\<close>, the description node being optional.\<close>

definition descriptionValue :: "string option \<Rightarrow> string" where
  "descriptionValue description =
     (case description of
        None \<Rightarrow> []
      | Some v \<Rightarrow> if v \<noteq> [] then v else [])"

section \<open>Type resolver\<close>

text \<open>
  A type node of the parser's syntax tree has one of three kinds. A \<open>NamedType\<close> node
  has a \<^verbatim>\<open>name\<close> and no \<^verbatim>\<open>type\<close> property; a \<open>NonNullType\<close> or \<open>ListType\<close>
  node has a \<^verbatim>\<open>type\<close> and no \<^verbatim>\<open>name\<close>.
\<close>

datatype type_node = NamedType string | NonNullType type_node | ListType type_node

record graphql_type =
  gtype :: string
  isNullable :: bool
  isArray :: bool

text \<open>\<^verbatim>\<open>node.type\<close>: \<^verbatim>\<open>undefined\<close> on a named type.\<close>

fun typeProperty :: "type_node \<Rightarrow> type_node option" where
  "typeProperty (NamedType n) = None"
| "typeProperty (NonNullType t) = Some t"
| "typeProperty (ListType t) = Some t"

text \<open>\<^verbatim>\<open>node.name.value\<close>: \<^verbatim>\<open>node.name\<close> is \<^verbatim>\<open>undefined\<close> unless the node is a named type.\<close>

fun nameValue :: "type_node \<Rightarrow> error + string" where
  "nameValue (NamedType n) = Inr n"
| "nameValue (NonNullType t) = Inl (TypeError ''value'')"
| "nameValue (ListType t) = Inl (TypeError ''value'')"

definition getNullableGraphqlType :: "type_node \<Rightarrow> error + graphql_type" where
  "getNullableGraphqlType fieldType =
     (case nameValue fieldType of
        Inl e \<Rightarrow> Inl e
      | Inr n \<Rightarrow> Inr \<lparr>gtype = n, isNullable = True, isArray = False\<rparr>)"

text \<open>The argument is an optional node: the caller may pass \<^verbatim>\<open>undefined\<close>.\<close>

fun getListItemGraphqlType :: "type_node option \<Rightarrow> error + string" where
  "getListItemGraphqlType None = Inl (TypeError ''kind'')"
| "getListItemGraphqlType (Some (NonNullType t)) = nameValue t"
| "getListItemGraphqlType (Some (NamedType n)) = Inr n"
| "getListItemGraphqlType (Some (ListType t)) = Inl (Error ''Unsupported type nesting level'')"

text \<open>
  The \<^verbatim>\<open>default\<close> branch of the switch (\<^verbatim>\<open>Unsupported case\<close>) has no input among
  the three kinds of node. In the \<open>ListType\<close> branch the source passes
  \<^verbatim>\<open>fieldType.type.type\<close>, the \<^verbatim>\<open>type\<close> property of the list's element.
\<close>

fun getGraphqlType :: "type_node \<Rightarrow> error + graphql_type" where
  "getGraphqlType (NamedType n) = getNullableGraphqlType (NamedType n)"
| "getGraphqlType (NonNullType (NamedType n)) =
     (case getNullableGraphqlType (NamedType n) of
        Inl e \<Rightarrow> Inl e
      | Inr nestedNamedType \<Rightarrow>
          Inr \<lparr>gtype = gtype nestedNamedType, isNullable = False, isArray = False\<rparr>)"
| "getGraphqlType (NonNullType (ListType t)) =
     (case getListItemGraphqlType (Some t) of
        Inl e \<Rightarrow> Inl e
      | Inr nestedListType \<Rightarrow>
          Inr \<lparr>gtype = nestedListType, isNullable = False, isArray = True\<rparr>)"
| "getGraphqlType (NonNullType (NonNullType t)) = Inl (Error ''Unsupported type hierarchy'')"
| "getGraphqlType (ListType t) =
     (case getListItemGraphqlType (typeProperty t) of
        Inl e \<Rightarrow> Inl e
      | Inr nestedListType \<Rightarrow>
          Inr \<lparr>gtype = nestedListType, isNullable = True, isArray = True\<rparr>)"

section \<open>The parsed schema\<close>

text \<open>
  The nodes of the parser's syntax tree, with the properties the generator reads. A
  property that a node may lack is an option: \<open>None\<close> is \<^verbatim>\<open>undefined\<close>. The name and
  description nodes are given by their \<^verbatim>\<open>value\<close>.
\<close>

record input_value =
  a_name :: string
  a_description :: "string option"
  a_type :: type_node

text \<open>
  A field of an object or interface type has \<^verbatim>\<open>arguments\<close>; a field of an input
  type is an input value and has none.
\<close>

record field_definition =
  f_name :: string
  f_description :: "string option"
  f_type :: type_node
  f_arguments :: "input_value list option"

record enum_value =
  v_name :: string
  v_description :: "string option"

text \<open>
  A definition of the document. A schema definition has no name, only object,
  interface and input types have \<^verbatim>\<open>fields\<close>, only enum types have \<^verbatim>\<open>values\<close>.
\<close>

record definition_node =
  d_kind :: string
  d_name :: "string option"
  d_description :: "string option"
  d_fields :: "field_definition list option"
  d_values :: "enum_value list option"

record document =
  definitions :: "definition_node list"

section \<open>Generated records and files\<close>

record field_record =
  field_name :: string
  field_description :: string
  field_graphqlType :: string
  field_isNullable :: bool
  field_isArray :: bool
  field_type :: js_value

record object_record =
  obj_name :: string
  obj_description :: string
  obj_fields :: "field_record list"

record enum_value_record =
  value_name :: string
  value_description :: string

record enum_record =
  enum_name :: string
  enum_description :: string
  enum_values :: "enum_value_record list"

record operation_record =
  op_name :: string
  op_description :: string
  op_graphqlType :: string
  op_type :: js_value
  op_isNullable :: bool
  op_isArray :: bool
  op_arguments :: "field_record list"
  op_hasArguments :: bool

record output_file =
  filename :: string
  contents :: string

text \<open>
  The compiled templates (\<^verbatim>\<open>loadTemplate\<close> reads them from files that are not part
  of the sources) and the two functions of the runtime's \<^verbatim>\<open>path\<close> module are
  parameters of the model.
\<close>

record env =
  typeTemplate :: "object_record \<Rightarrow> string"
  inputTemplate :: "object_record \<Rightarrow> string"
  enumTemplate :: "enum_record \<Rightarrow> string"
  resolverTemplate :: "operation_record \<Rightarrow> string"
  path_resolve :: "string \<Rightarrow> string \<Rightarrow> string"
  path_dirname :: "string \<Rightarrow> string"

section \<open>Array methods with a callback that may throw\<close>

fun mapE :: "('a \<Rightarrow> error + 'b) \<Rightarrow> 'a list \<Rightarrow> error + 'b list" where
  "mapE f [] = Inr []"
| "mapE f (x # xs) =
     (case f x of
        Inl e \<Rightarrow> Inl e
      | Inr y \<Rightarrow> (case mapE f xs of Inl e \<Rightarrow> Inl e | Inr ys \<Rightarrow> Inr (y # ys)))"

fun filterE :: "('a \<Rightarrow> error + bool) \<Rightarrow> 'a list \<Rightarrow> error + 'a list" where
  "filterE p [] = Inr []"
| "filterE p (x # xs) =
     (case p x of
        Inl e \<Rightarrow> Inl e
      | Inr b \<Rightarrow>
          (case filterE p xs of
             Inl e \<Rightarrow> Inl e
           | Inr ys \<Rightarrow> Inr (if b then x # ys else ys)))"

section \<open>Artifact extraction\<close>

text \<open>The field mapper of the object-type and input-type blocks.\<close>

definition fieldRecord :: "field_definition \<Rightarrow> error + field_record" where
  "fieldRecord field =
     (case getGraphqlType (f_type field) of
        Inl e \<Rightarrow> Inl e
      | Inr g \<Rightarrow>
          Inr \<lparr>field_name = f_name field,
               field_description = descriptionValue (f_description field),
               field_graphqlType = gtype g,
               field_isNullable = isNullable g,
               field_isArray = isArray g,
               field_type = scalarMapped (gtype g)\<rparr>)"

text \<open>The argument mapper of the two operation blocks.\<close>

definition argumentRecord :: "input_value \<Rightarrow> error + field_record" where
  "argumentRecord arg =
     (case getGraphqlType (a_type arg) of
        Inl e \<Rightarrow> Inl e
      | Inr g \<Rightarrow>
          Inr \<lparr>field_name = a_name arg,
               field_description = descriptionValue (a_description arg),
               field_graphqlType = gtype g,
               field_isNullable = isNullable g,
               field_isArray = isArray g,
               field_type = scalarMapped (gtype g)\<rparr>)"

text \<open>
  The definition mapper of the object-type and input-type blocks: \<^verbatim>\<open>def.name.value\<close>,
  the description, then \<^verbatim>\<open>def.fields.map(...)\<close>.
\<close>

definition objectRecord :: "definition_node \<Rightarrow> error + object_record" where
  "objectRecord def =
     (case d_name def of
        None \<Rightarrow> Inl (TypeError ''value'')
      | Some n \<Rightarrow>
          (case d_fields def of
             None \<Rightarrow> Inl (TypeError ''map'')
           | Some fs \<Rightarrow>
               (case mapE fieldRecord fs of
                  Inl e \<Rightarrow> Inl e
                | Inr rs \<Rightarrow>
                    Inr \<lparr>obj_name = n,
                         obj_description = descriptionValue (d_description def),
                         obj_fields = rs\<rparr>)))"

definition enumValueRecord :: "enum_value \<Rightarrow> enum_value_record" where
  "enumValueRecord val =
     \<lparr>value_name = v_name val, value_description = descriptionValue (v_description val)\<rparr>"

definition enumRecord :: "definition_node \<Rightarrow> error + enum_record" where
  "enumRecord def =
     (case d_name def of
        None \<Rightarrow> Inl (TypeError ''value'')
      | Some n \<Rightarrow>
          (case d_values def of
             None \<Rightarrow> Inl (TypeError ''map'')
           | Some vs \<Rightarrow>
               Inr \<lparr>enum_name = n,
                    enum_description = descriptionValue (d_description def),
                    enum_values = map enumValueRecord vs\<rparr>))"

text \<open>
  The operation mapper of the query and mutation blocks: the result type is resolved
  first, then \<^verbatim>\<open>op.arguments.map(...)\<close>.
\<close>

definition operationRecord :: "field_definition \<Rightarrow> error + operation_record" where
  "operationRecord op =
     (case getGraphqlType (f_type op) of
        Inl e \<Rightarrow> Inl e
      | Inr g \<Rightarrow>
          (case f_arguments op of
             None \<Rightarrow> Inl (TypeError ''map'')
           | Some args \<Rightarrow>
               (case mapE argumentRecord args of
                  Inl e \<Rightarrow> Inl e
                | Inr arguments \<Rightarrow>
                    Inr \<lparr>op_name = f_name op,
                         op_description = descriptionValue (f_description op),
                         op_graphqlType = gtype g,
                         op_type = scalarMapped (gtype g),
                         op_isNullable = isNullable g,
                         op_isArray = isArray g,
                         op_arguments = arguments,
                         op_hasArguments = (length arguments > 0)\<rparr>)))"

text \<open>
  The filter of the object-type block: \<^verbatim>\<open>def.name.value\<close> is read only when the
  kind matches.
\<close>

definition isTypeDefinition :: "definition_node \<Rightarrow> error + bool" where
  "isTypeDefinition def =
     (if d_kind def = ''ObjectTypeDefinition''
      then (case d_name def of
              None \<Rightarrow> Inl (TypeError ''value'')
            | Some n \<Rightarrow> Inr (n \<notin> set graphqlArtifactNames))
      else Inr False)"

text \<open>The filter of the operation blocks, \<^verbatim>\<open>def.name.value === name\<close>, run on every definition.\<close>

definition isNamed :: "string \<Rightarrow> definition_node \<Rightarrow> error + bool" where
  "isNamed name def =
     (case d_name def of
        None \<Rightarrow> Inl (TypeError ''value'')
      | Some n \<Rightarrow> Inr (n = name))"

text \<open>
  \<^verbatim>\<open>schema.definitions.filter(def => def.name.value === name)[0].fields\<close>: element 0
  of an empty array is \<^verbatim>\<open>undefined\<close>, and reading \<^verbatim>\<open>fields\<close> of it throws. The
  result is the \<^verbatim>\<open>fields\<close> property, itself possibly \<^verbatim>\<open>undefined\<close>.
\<close>

definition rootFields :: "string \<Rightarrow> definition_node list \<Rightarrow> error + field_definition list option" where
  "rootFields name defs =
     (case filterE (isNamed name) defs of
        Inl e \<Rightarrow> Inl e
      | Inr [] \<Rightarrow> Inl (TypeError ''fields'')
      | Inr (d # ds) \<Rightarrow> Inr (d_fields d))"

text \<open>
  Each block of \<^verbatim>\<open>generate\<close> is a chain: select the definitions, build one record
  for each, render each record into a file. The records of a block are named here
  (\<open>typeRecords\<close>, ...) and the files keep the source's names.
\<close>

definition typeRecords :: "definition_node list \<Rightarrow> error + object_record list" where
  "typeRecords defs =
     (case filterE isTypeDefinition defs of
        Inl e \<Rightarrow> Inl e
      | Inr ds \<Rightarrow> mapE objectRecord ds)"

definition types :: "env \<Rightarrow> definition_node list \<Rightarrow> error + output_file list" where
  "types env defs =
     (case typeRecords defs of
        Inl e \<Rightarrow> Inl e
      | Inr rs \<Rightarrow>
          Inr (map (\<lambda>type. \<lparr>filename = ''types/'' @ obj_name type @ ''.ts'',
                              contents = typeTemplate env type\<rparr>) rs))"

definition inputRecords :: "definition_node list \<Rightarrow> error + object_record list" where
  "inputRecords defs =
     mapE objectRecord (filter (\<lambda>def. d_kind def = ''InputObjectTypeDefinition'') defs)"

definition inputs :: "env \<Rightarrow> definition_node list \<Rightarrow> error + output_file list" where
  "inputs env defs =
     (case inputRecords defs of
        Inl e \<Rightarrow> Inl e
      | Inr rs \<Rightarrow>
          Inr (map (\<lambda>input. \<lparr>filename = ''inputs/'' @ obj_name input @ ''.ts'',
                               contents = inputTemplate env input\<rparr>) rs))"

definition enumRecords :: "definition_node list \<Rightarrow> error + enum_record list" where
  "enumRecords defs =
     mapE enumRecord (filter (\<lambda>def. d_kind def = ''EnumTypeDefinition'') defs)"

definition enums :: "env \<Rightarrow> definition_node list \<Rightarrow> error + output_file list" where
  "enums env defs =
     (case enumRecords defs of
        Inl e \<Rightarrow> Inl e
      | Inr rs \<Rightarrow>
          Inr (map (\<lambda>enumType. \<lparr>filename = ''types/'' @ enum_name enumType @ ''.ts'',
                                  contents = enumTemplate env enumType\<rparr>) rs))"

text \<open>\<^verbatim>\<open>.fields.map(op => ...)\<close> on the selected root: \<^verbatim>\<open>map\<close> of \<^verbatim>\<open>undefined\<close> throws.\<close>

definition operationRecords :: "string \<Rightarrow> definition_node list \<Rightarrow> error + operation_record list" where
  "operationRecords name defs =
     (case rootFields name defs of
        Inl e \<Rightarrow> Inl e
      | Inr None \<Rightarrow> Inl (TypeError ''map'')
      | Inr (Some fs) \<Rightarrow> mapE operationRecord fs)"

definition queryOperations :: "env \<Rightarrow> definition_node list \<Rightarrow> error + output_file list" where
  "queryOperations env defs =
     (case operationRecords ''Query'' defs of
        Inl e \<Rightarrow> Inl e
      | Inr ops \<Rightarrow>
          Inr (map (\<lambda>op. \<lparr>filename = ''resolvers/queries/'' @ op_name op @ ''.ts'',
                            contents = resolverTemplate env op\<rparr>) ops))"

definition mutationOperations :: "env \<Rightarrow> definition_node list \<Rightarrow> error + output_file list" where
  "mutationOperations env defs =
     (case operationRecords ''Mutation'' defs of
        Inl e \<Rightarrow> Inl e
      | Inr ops \<Rightarrow>
          Inr (map (\<lambda>op. \<lparr>filename = ''resolvers/mutations/'' @ op_name op @ ''.ts'',
                            contents = resolverTemplate env op\<rparr>) ops))"

text \<open>
  The five blocks run in the order of the source (types, inputs, enums, queries,
  mutations); the first one that throws ends the call. The result lists inputs, enums,
  types, queries, mutations.
\<close>

definition generate :: "env \<Rightarrow> document \<Rightarrow> error + output_file list" where
  "generate env schema =
     (case types env (definitions schema) of
        Inl e \<Rightarrow> Inl e
      | Inr ts \<Rightarrow>
     (case inputs env (definitions schema) of
        Inl e \<Rightarrow> Inl e
      | Inr is \<Rightarrow>
     (case enums env (definitions schema) of
        Inl e \<Rightarrow> Inl e
      | Inr es \<Rightarrow>
     (case queryOperations env (definitions schema) of
        Inl e \<Rightarrow> Inl e
      | Inr qs \<Rightarrow>
     (case mutationOperations env (definitions schema) of
        Inl e \<Rightarrow> Inl e
      | Inr ms \<Rightarrow> Inr (is @ es @ ts @ qs @ ms))))))"

section \<open>Writing the files\<close>

text \<open>
  The output directory tree: the directories that exist and the contents of the files.
  The model takes \<^verbatim>\<open>mkdirSync\<close> and \<^verbatim>\<open>writeFileSync\<close> to succeed.
\<close>

record filesystem =
  dirs :: "string set"
  files :: "string \<rightharpoonup> string"

text \<open>
  A directory and its ancestors: the directory, its \<^verbatim>\<open>path.dirname\<close>, the
  \<^verbatim>\<open>path.dirname\<close> of that, and so on. Each step shortens a path until it stays at
  the root, so as many steps as the path has characters reach every ancestor.
\<close>

fun ancestorDirs :: "(string \<Rightarrow> string) \<Rightarrow> nat \<Rightarrow> string \<Rightarrow> string list" where
  "ancestorDirs dirname 0 dir = [dir]"
| "ancestorDirs dirname (Suc n) dir = dir # ancestorDirs dirname n (dirname dir)"

text \<open>
  \<^verbatim>\<open>fs.mkdirSync(dir, { recursive: true })\<close>: the directory exists afterwards, and so
  does every ancestor of it that was missing.
\<close>

definition mkdirSync :: "env \<Rightarrow> string \<Rightarrow> filesystem \<Rightarrow> filesystem" where
  "mkdirSync env dir fs =
     fs\<lparr>dirs := dirs fs \<union> set (ancestorDirs (path_dirname env) (length dir) dir)\<rparr>"

text \<open>The body of the loop over the generated files.\<close>

definition writeFile :: "env \<Rightarrow> string \<Rightarrow> filesystem \<Rightarrow> output_file \<Rightarrow> filesystem" where
  "writeFile env outputDirectory fs file =
     (let outputFilename = path_resolve env outputDirectory (filename file);
          dir = path_dirname env outputFilename;
          fs1 = (if dir \<notin> dirs fs then mkdirSync env dir fs else fs)
      in fs1\<lparr>files := (files fs1)(outputFilename \<mapsto> contents file)\<rparr>)"

text \<open>
  The action of the \<^verbatim>\<open>generate\<close> command, from the parsed schema on: all files are
  generated, then written one after the other. The result is the file system after the
  run and the error that ended it, if any.
\<close>

definition run :: "env \<Rightarrow> document \<Rightarrow> string \<Rightarrow> filesystem \<Rightarrow> filesystem \<times> error option" where
  "run env schema outputDirectory fs =
     (case generate env schema of
        Inl e \<Rightarrow> (fs, Some e)
      | Inr fl \<Rightarrow> (foldl (writeFile env outputDirectory) fs fl, None))"

section \<open>Quantities of a schema\<close>



definition isPlainObjectType :: "definition_node \<Rightarrow> bool" where
  "isPlainObjectType d =
     (d_kind d = ''ObjectTypeDefinition'' \<and>
      (case d_name d of None \<Rightarrow> False | Some n \<Rightarrow> n \<notin> set graphqlArtifactNames))"



definition nameOf :: "definition_node \<Rightarrow> string" where
  "nameOf d = (case d_name d of None \<Rightarrow> [] | Some n \<Rightarrow> n)"

section \<open>Sample inputs\<close>

text \<open>
  A sample environment: each template prints the name of its record, paths are joined
  with a slash, and the directory of a path is what precedes its last slash, or
  \<^verbatim>\<open>.\<close> for a path without a slash.
\<close>

definition joinPath :: "string \<Rightarrow> string \<Rightarrow> string" where
  "joinPath dir f = dir @ ''/'' @ f"

definition parentPath :: "string \<Rightarrow> string" where
  "parentPath p =
     (if CHR ''/'' \<in> set p then rev (tl (dropWhile (\<lambda>c. c \<noteq> CHR ''/'') (rev p)))
      else ''.'')"

definition sampleEnv :: env where
  "sampleEnv =
     \<lparr>typeTemplate = obj_name, inputTemplate = obj_name, enumTemplate = enum_name,
      resolverTemplate = op_name, path_resolve = joinPath, path_dirname = parentPath\<rparr>"

definition emptyFs :: filesystem where
  "emptyFs = \<lparr>dirs = {}, files = Map.empty\<rparr>"

definition plainField :: "string \<Rightarrow> type_node \<Rightarrow> input_value list option \<Rightarrow> field_definition" where
  "plainField n t args = \<lparr>f_name = n, f_description = None, f_type = t, f_arguments = args\<rparr>"

definition fieldsDefinition :: "string \<Rightarrow> string \<Rightarrow> field_definition list \<Rightarrow> definition_node" where
  "fieldsDefinition k n fs =
     \<lparr>d_kind = k, d_name = Some n, d_description = None, d_fields = Some fs, d_values = None\<rparr>"

text \<open>\<^verbatim>\<open>input WidgetInput { name: String! }\<close>\<close>

definition widgetInputDef :: definition_node where
  "widgetInputDef =
     fieldsDefinition ''InputObjectTypeDefinition'' ''WidgetInput''
       [plainField ''name'' (NonNullType (NamedType ''String'')) None]"

text \<open>\<^verbatim>\<open>enum Color { RED GREEN }\<close>\<close>

definition colorDef :: definition_node where
  "colorDef =
     \<lparr>d_kind = ''EnumTypeDefinition'', d_name = Some ''Color'', d_description = None,
      d_fields = None,
      d_values = Some [\<lparr>v_name = ''RED'', v_description = None\<rparr>,
                       \<lparr>v_name = ''GREEN'', v_description = None\<rparr>]\<rparr>"

text \<open>\<^verbatim>\<open>type Widget { id: ID! name: String tags: [String!] }\<close>\<close>

definition widgetDef :: definition_node where
  "widgetDef =
     fieldsDefinition ''ObjectTypeDefinition'' ''Widget''
       [plainField ''id'' (NonNullType (NamedType ''ID'')) (Some []),
        plainField ''name'' (NamedType ''String'') (Some []),
        plainField ''tags'' (ListType (NonNullType (NamedType ''String''))) (Some [])]"

text \<open>\<^verbatim>\<open>type Query { widgets: [Widget!]! }\<close>\<close>

definition queryDef :: definition_node where
  "queryDef =
     fieldsDefinition ''ObjectTypeDefinition'' ''Query''
       [plainField ''widgets'' (NonNullType (ListType (NonNullType (NamedType ''Widget'')))) (Some [])]"

text \<open>\<^verbatim>\<open>type Mutation { createWidget(input: WidgetInput!): Widget! }\<close>\<close>

definition mutationDef :: definition_node where
  "mutationDef =
     fieldsDefinition ''ObjectTypeDefinition'' ''Mutation''
       [plainField ''createWidget'' (NonNullType (NamedType ''Widget''))
          (Some [\<lparr>a_name = ''input'', a_description = None,
                   a_type = NonNullType (NamedType ''WidgetInput'')\<rparr>])]"

definition sampleSchema :: document where
  "sampleSchema = \<lparr>definitions = [widgetInputDef, colorDef, widgetDef, queryDef, mutationDef]\<rparr>"

text \<open>The same document without its mutation root.\<close>

definition noMutationSchema :: document where
  "noMutationSchema = \<lparr>definitions = [widgetInputDef, colorDef, widgetDef, queryDef]\<rparr>"

text \<open>\<^verbatim>\<open>type Subscription { widgetAdded: Widget }\<close>\<close>

definition subscriptionDef :: definition_node where
  "subscriptionDef =
     fieldsDefinition ''ObjectTypeDefinition'' ''Subscription''
       [plainField ''widgetAdded'' (NamedType ''Widget'') (Some [])]"

text \<open>\<^verbatim>\<open>type root { version: String }\<close>\<close>

definition rootDef :: definition_node where
  "rootDef =
     fieldsDefinition ''ObjectTypeDefinition'' ''root''
       [plainField ''version'' (NamedType ''String'') (Some [])]"

text \<open>A document with an object type under each of the four reserved names.\<close>

definition reservedSchema :: document where
  "reservedSchema =
     \<lparr>definitions = [subscriptionDef, queryDef, widgetDef, rootDef, mutationDef]\<rparr>"

text \<open>\<^verbatim>\<open>interface Query { ping: Int }\<close>, an interface that carries the query root's name.\<close>

definition queryInterfaceDef :: definition_node where
  "queryInterfaceDef =
     fieldsDefinition ''InterfaceTypeDefinition'' ''Query''
       [plainField ''ping'' (NamedType ''Int'') (Some [])]"

section \<open>Evaluation rules\<close>

lemmas sample_defs =
  sampleSchema_def noMutationSchema_def widgetInputDef_def colorDef_def widgetDef_def
  queryDef_def mutationDef_def queryInterfaceDef_def fieldsDefinition_def plainField_def
  subscriptionDef_def rootDef_def reservedSchema_def
  sampleEnv_def emptyFs_def joinPath_def parentPath_def

lemmas extractor_defs =
  generate_def types_def inputs_def enums_def queryOperations_def mutationOperations_def
  typeRecords_def inputRecords_def enumRecords_def operationRecords_def rootFields_def
  isNamed_def isTypeDefinition_def objectRecord_def enumRecord_def enumValueRecord_def
  operationRecord_def fieldRecord_def argumentRecord_def getNullableGraphqlType_def
  descriptionValue_def graphqlArtifactNames_def

section \<open>The type resolver on the recognized shapes\<close>

lemma getGraphqlType_named:
  "getGraphqlType (NamedType n) = Inr \<lparr>gtype = n, isNullable = True, isArray = False\<rparr>"
  by (simp add: getNullableGraphqlType_def)

lemma getGraphqlType_nonnull_named:
  "getGraphqlType (NonNullType (NamedType n)) =
     Inr \<lparr>gtype = n, isNullable = False, isArray = False\<rparr>"
  by (simp add: getNullableGraphqlType_def)

lemma getGraphqlType_list_nonnull_named:
  "getGraphqlType (ListType (NonNullType (NamedType n))) =
     Inr \<lparr>gtype = n, isNullable = True, isArray = True\<rparr>"
  by simp

lemma getGraphqlType_nonnull_list_named:
  "getGraphqlType (NonNullType (ListType (NamedType n))) =
     Inr \<lparr>gtype = n, isNullable = False, isArray = True\<rparr>"
  by simp

lemma getGraphqlType_nonnull_list_nonnull_named:
  "getGraphqlType (NonNullType (ListType (NonNullType (NamedType n)))) =
     Inr \<lparr>gtype = n, isNullable = False, isArray = True\<rparr>"
  by simp

text \<open>
  C1. The resolver maps each recognized shape to its triple: a named type to
  (n, nullable, not array), a non-null named type to (n, not nullable, not array), a list
  of named or non-null named elements to (n, nullable, array), and a non-null list of
  such elements to (n, not nullable, array). The lemmas above give every row but one: for
  a list whose element is a plain named type, the \<open>ListType\<close> branch hands
  \<^verbatim>\<open>fieldType.type.type\<close> to \<^verbatim>\<open>getListItemGraphqlType\<close>, which is \<^verbatim>\<open>undefined\<close>
  for a named element, and reading its \<^verbatim>\<open>kind\<close> throws. The \<open>NonNullType\<close> branch
  passes the list's element itself and resolves the same element.
\<close>

theorem getGraphqlType_list_named:
  "getGraphqlType (ListType (NamedType n)) = Inl (TypeError ''kind'')"
  by simp

section \<open>The type resolver outside the recognized shapes\<close>

lemma getGraphqlType_nonnull_nonnull:
  "getGraphqlType (NonNullType (NonNullType t)) = Inl (Error ''Unsupported type hierarchy'')"
  by simp

lemma getGraphqlType_nonnull_list_list:
  "getGraphqlType (NonNullType (ListType (ListType t))) =
     Inl (Error ''Unsupported type nesting level'')"
  by simp

lemma getListItemGraphqlType_Inr:
  "getListItemGraphqlType u = Inr n \<longleftrightarrow>
     u = Some (NamedType n) \<or> u = Some (NonNullType (NamedType n))"
proof (cases u)
  case None
  then show ?thesis by simp
next
  case (Some t)
  show ?thesis
  proof (cases t)
    case (NamedType x)
    with Some show ?thesis by auto
  next
    case (NonNullType x)
    with Some show ?thesis by (cases x) auto
  next
    case (ListType x)
    with Some show ?thesis by simp
  qed
qed

lemma getGraphqlType_Inr_shapes:
  assumes "getGraphqlType t = Inr g"
  shows "t = NamedType (gtype g)
       \<or> t = NonNullType (NamedType (gtype g))
       \<or> t = NonNullType (ListType (NamedType (gtype g)))
       \<or> t = NonNullType (ListType (NonNullType (NamedType (gtype g))))
       \<or> t = ListType (NonNullType (NamedType (gtype g)))
       \<or> t = ListType (NonNullType (NonNullType (NamedType (gtype g))))
       \<or> t = ListType (ListType (NamedType (gtype g)))
       \<or> t = ListType (ListType (NonNullType (NamedType (gtype g))))"
proof (cases t)
  case (NamedType n)
  with assms show ?thesis by (auto simp: getNullableGraphqlType_def)
next
  case (NonNullType u)
  show ?thesis
  proof (cases u)
    case (NamedType n)
    with NonNullType assms show ?thesis by (auto simp: getNullableGraphqlType_def)
  next
    case inner: (NonNullType v)
    with NonNullType assms show ?thesis by simp
  next
    case (ListType v)
    with NonNullType assms obtain n where "getListItemGraphqlType (Some v) = Inr n" "gtype g = n"
      by (auto split: sum.splits)
    with NonNullType ListType show ?thesis by (auto simp: getListItemGraphqlType_Inr)
  qed
next
  case (ListType u)
  with assms obtain n where n: "getListItemGraphqlType (typeProperty u) = Inr n" "gtype g = n"
    by (auto split: sum.splits)
  then have "typeProperty u = Some (NamedType n) \<or> typeProperty u = Some (NonNullType (NamedType n))"
    by (simp add: getListItemGraphqlType_Inr)
  with ListType n(2) show ?thesis by (cases u) auto
qed

text \<open>
  C2. Every type node outside the four recognized shapes makes the resolver fail, and
  none is turned into a descriptor. A non-null list of lists is rejected (lemma above),
  but a plain list of lists is not: the \<open>ListType\<close> branch looks one level below the
  list's element, finds the named type there, and returns the descriptor of a list of
  that name.
\<close>

theorem getGraphqlType_list_list:
  "getGraphqlType (ListType (ListType (NamedType ''String''))) =
     Inr \<lparr>gtype = ''String'', isNullable = True, isArray = True\<rparr>"
  by simp

section \<open>The scalar mapper\<close>

lemma scalarMapped_table:
  "scalarMapped ''ID'' = JString ''string''"
  "scalarMapped ''String'' = JString ''string''"
  "scalarMapped ''Float'' = JString ''number''"
  "scalarMapped ''Int'' = JString ''number''"
  "scalarMapped ''Boolean'' = JString ''boolean''"
  "scalarMapped ''DateTime'' = JString ''Date''"
  "scalarMapped ''Dictionary'' = JString ''{ [key: string]: any }''"
  by (simp_all add: scalarMapped_def getProperty_def scalarMap_def)

lemma scalarMapped_other:
  "n \<notin> set (map fst scalarMap) \<Longrightarrow> n \<notin> set objectPrototypeKeys \<Longrightarrow>
   scalarMapped n = JString n"
  by (simp add: scalarMapped_def getProperty_def map_of_eq_None_iff[THEN iffD2]
      split: option.splits)

text \<open>
  C3. The scalar mapper sends the seven names of the table to their primitives and every
  other base name to itself. The table rows hold, and so does the pass-through for a
  name that is no property of \<^verbatim>\<open>Object.prototype\<close> (lemmas above). The lookup
  \<^verbatim>\<open>scalarMap[graphqlType]\<close> also finds inherited properties: for the base name
  \<^verbatim>\<open>constructor\<close> it yields the inherited function, which is truthy, so the mapper
  returns that function and not the name.
\<close>

theorem scalarMapped_constructor:
  "scalarMapped ''constructor'' = JInherited ''constructor''"
  by (simp add: scalarMapped_def getProperty_def scalarMap_def objectPrototypeKeys_def)

section \<open>Callbacks that may throw\<close>


lemma mapE_Inr_nth: "mapE f xs = Inr ys \<Longrightarrow> i < length xs \<Longrightarrow> f (xs ! i) = Inr (ys ! i)"
proof (induction xs arbitrary: ys i)
  case Nil
  then show ?case by simp
next
  case (Cons x xs)
  then show ?case
    by (cases i) (auto split: sum.splits)
qed

lemma mapE_Inr_set: "mapE f xs = Inr ys \<Longrightarrow> y \<in> set ys \<Longrightarrow> \<exists>x\<in>set xs. f x = Inr y"
  by (induction xs arbitrary: ys) (auto split: sum.splits)

lemma mapE_Inr_map:
  assumes "mapE f xs = Inr ys"
    and "\<And>x y. x \<in> set xs \<Longrightarrow> f x = Inr y \<Longrightarrow> g y = h x"
  shows "map g ys = map h xs"
  using assms by (induction xs arbitrary: ys) (auto split: sum.splits)

lemma filterE_Inr: "filterE p xs = Inr ys \<Longrightarrow> ys = filter (\<lambda>x. p x = Inr True) xs"
proof (induction xs arbitrary: ys)
  case Nil
  then show ?case by simp
next
  case (Cons x xs)
  then show ?case
    by (auto split: sum.splits if_splits)
qed

lemma filterE_total:
  "(\<And>x. x \<in> set xs \<Longrightarrow> p x = Inr (q x)) \<Longrightarrow> filterE p xs = Inr (filter q xs)"
  by (induction xs) auto

section \<open>A missing root container\<close>

lemma filterE_isNamed_none:
  assumes "\<forall>d\<in>set defs. d_name d \<noteq> Some name"
  shows "filterE (isNamed name) defs = Inr [] \<or>
         filterE (isNamed name) defs = Inl (TypeError ''value'')"
  using assms
  by (induction defs) (auto simp: isNamed_def split: option.splits)

lemma rootFields_missing:
  assumes "\<forall>d\<in>set defs. d_name d \<noteq> Some name"
  shows "rootFields name defs = Inl (TypeError ''fields'') \<or>
         rootFields name defs = Inl (TypeError ''value'')"
  using filterE_isNamed_none[OF assms] by (auto simp: rootFields_def)

lemma filterE_isNamed_all_named:
  assumes "\<forall>d\<in>set defs. d_name d \<noteq> None"
  shows "filterE (isNamed name) defs = Inr (filter (\<lambda>d. d_name d = Some name) defs)"
  using assms by (intro filterE_total) (auto simp: isNamed_def split: option.splits)

lemma rootFields_missing_named:
  assumes "\<forall>d\<in>set defs. d_name d \<noteq> Some name" and "\<forall>d\<in>set defs. d_name d \<noteq> None"
  shows "rootFields name defs = Inl (TypeError ''fields'')"
proof -
  have "filter (\<lambda>d. d_name d = Some name) defs = []"
    using assms(1) by (simp add: filter_empty_conv)
  then show ?thesis
    using filterE_isNamed_all_named[OF assms(2), of name] by (simp add: rootFields_def)
qed

lemma generate_fails_query:
  assumes "operationRecords ''Query'' (definitions schema) = Inl e0"
  shows "\<exists>e. generate env schema = Inl e"
  using assms by (auto simp: generate_def queryOperations_def split: sum.splits)

lemma generate_fails_mutation:
  assumes "operationRecords ''Mutation'' (definitions schema) = Inl e0"
  shows "\<exists>e. generate env schema = Inl e"
  using assms by (auto simp: generate_def mutationOperations_def split: sum.splits)

text \<open>
  C4. When the document has no definition named as the query root (or as the mutation
  root), extraction fails, and it fails before any file is written. The failure the
  specification calls MissingRootOperation is, in the source, the TypeError of reading
  \<^verbatim>\<open>fields\<close> of the missing element 0 of the filtered definitions; when some
  definition has no name at all, the filter itself throws first, on \<^verbatim>\<open>value\<close>. In
  both cases \<^verbatim>\<open>generate\<close> returns no file list, so the run leaves the file system as
  it was.
\<close>

theorem missing_root_operation:
  assumes "root = ''Query'' \<or> root = ''Mutation''"
    and "\<forall>d\<in>set (definitions schema). d_name d \<noteq> Some root"
  shows "(\<exists>p. operationRecords root (definitions schema) = Inl (TypeError p))
       \<and> ((\<forall>d\<in>set (definitions schema). d_name d \<noteq> None) \<longrightarrow>
            operationRecords root (definitions schema) = Inl (TypeError ''fields''))
       \<and> (\<exists>e. generate env schema = Inl e \<and>
                run env schema outputDirectory fs = (fs, Some e))"
proof -
  have a: "\<exists>p. operationRecords root (definitions schema) = Inl (TypeError p)"
    using rootFields_missing[OF assms(2)] by (auto simp: operationRecords_def)
  have b: "(\<forall>d\<in>set (definitions schema). d_name d \<noteq> None) \<longrightarrow>
            operationRecords root (definitions schema) = Inl (TypeError ''fields'')"
    using rootFields_missing_named[OF assms(2)] by (auto simp: operationRecords_def)
  from a assms(1) obtain e where "generate env schema = Inl e"
    using generate_fails_query generate_fails_mutation by blast
  then have c: "\<exists>e. generate env schema = Inl e \<and>
                     run env schema outputDirectory fs = (fs, Some e)"
    by (simp add: run_def)
  from a b c show ?thesis by blast
qed

theorem missing_root_operation_witness:
  "operationRecords ''Mutation'' (definitions noMutationSchema) = Inl (TypeError ''fields'')
   \<and> generate sampleEnv noMutationSchema = Inl (TypeError ''fields'')
   \<and> run sampleEnv noMutationSchema ''out'' emptyFs = (emptyFs, Some (TypeError ''fields''))"
proof -
  have h: "\<forall>d\<in>set (definitions noMutationSchema). d_name d \<noteq> Some ''Mutation''"
    by (simp add: sample_defs)
  have n: "\<forall>d\<in>set (definitions noMutationSchema). d_name d \<noteq> None"
    by (simp add: sample_defs)
  have r: "''Mutation'' = ''Query'' \<or> ''Mutation'' = ''Mutation''"
    by simp
  have g: "generate sampleEnv noMutationSchema = Inl (TypeError ''fields'')"
    by (simp add: sample_defs extractor_defs)
  show ?thesis
    using n g missing_root_operation [OF r h, of sampleEnv "''out''" emptyFs]
    by auto
qed

section \<open>Shape of the extracted records\<close>

lemma objectRecord_name: "objectRecord d = Inr r \<Longrightarrow> d_name d = Some (obj_name r)"
  by (auto simp: objectRecord_def split: option.splits sum.splits)

lemma enumRecord_name: "enumRecord d = Inr r \<Longrightarrow> d_name d = Some (enum_name r)"
  by (auto simp: enumRecord_def split: option.splits sum.splits)

lemma operationRecord_name: "operationRecord f = Inr r \<Longrightarrow> op_name r = f_name f"
  by (auto simp: operationRecord_def split: option.splits sum.splits)

lemma isTypeDefinition_True: "isTypeDefinition d = Inr True \<longleftrightarrow> isPlainObjectType d"
  by (auto simp: isTypeDefinition_def isPlainObjectType_def split: option.splits)

lemma isNamed_True: "isNamed name d = Inr True \<longleftrightarrow> d_name d = Some name"
  by (auto simp: isNamed_def split: option.splits)

lemma typeRecords_Inr:
  "typeRecords defs = Inr rs \<Longrightarrow> mapE objectRecord (filter isPlainObjectType defs) = Inr rs"
  by (auto simp: typeRecords_def isTypeDefinition_True split: sum.splits dest!: filterE_Inr)

text \<open>
  C5. No object-type definition whose name is one of the four reserved names (Query,
  Mutation, Subscription, root) appears among the object-type records: every record of
  that category comes from an object-type definition of the document and carries its
  name, and that name is none of \<^verbatim>\<open>Query\<close>, \<^verbatim>\<open>Mutation\<close>, \<^verbatim>\<open>Subscription\<close> and
  \<^verbatim>\<open>root\<close>.
\<close>

theorem reserved_names_excluded:
  assumes "typeRecords defs = Inr rs" and "r \<in> set rs"
  shows "obj_name r \<noteq> ''Query'' \<and> obj_name r \<noteq> ''Mutation''
       \<and> obj_name r \<noteq> ''Subscription'' \<and> obj_name r \<noteq> ''root''
       \<and> (\<exists>d\<in>set defs. d_kind d = ''ObjectTypeDefinition'' \<and> d_name d = Some (obj_name r))"
proof -
  from mapE_Inr_set[OF typeRecords_Inr[OF assms(1)] assms(2)]
  obtain d where d: "d \<in> set (filter isPlainObjectType defs)" "objectRecord d = Inr r"
    by blast
  from d(2) have n: "d_name d = Some (obj_name r)" by (rule objectRecord_name)
  from d(1) n have "obj_name r \<notin> set [''Query'', ''Mutation'', ''Subscription'', ''root'']"
    by (simp add: isPlainObjectType_def graphqlArtifactNames_def)
  then have "obj_name r \<noteq> ''Query'' \<and> obj_name r \<noteq> ''Mutation''
       \<and> obj_name r \<noteq> ''Subscription'' \<and> obj_name r \<noteq> ''root''"
    by simp
  moreover from d(1) n
  have "\<exists>d\<in>set defs. d_kind d = ''ObjectTypeDefinition'' \<and> d_name d = Some (obj_name r)"
    by (auto simp: isPlainObjectType_def)
  ultimately show ?thesis by blast
qed

lemma find_filter_hd: "filter P xs = y # ys \<Longrightarrow> find P xs = Some y"
  by (induction xs) (auto split: if_splits)

lemma rootFields_Inr:
  assumes "rootFields name defs = Inr r"
  shows "\<exists>d. find (\<lambda>x. d_name x = Some name) defs = Some d \<and> d_fields d = r"
proof -
  from assms obtain d ds where f: "filterE (isNamed name) defs = Inr (d # ds)" and r: "r = d_fields d"
    by (auto simp: rootFields_def split: sum.splits list.splits)
  from filterE_Inr[OF f] have "filter (\<lambda>x. d_name x = Some name) defs = d # ds"
    by (simp add: isNamed_True)
  then have "find (\<lambda>x. d_name x = Some name) defs = Some d" by (rule find_filter_hd)
  with r show ?thesis by simp
qed

lemma operationRecords_Inr:
  assumes "operationRecords name defs = Inr ops"
  shows "\<exists>fs. rootFields name defs = Inr (Some fs) \<and> mapE operationRecord fs = Inr ops"
  using assms by (auto simp: operationRecords_def split: sum.splits option.splits)


lemma generate_Inr:
  assumes "generate env schema = Inr fl"
  shows "\<exists>is es ts qs ms.
           fl = is @ es @ ts @ qs @ ms
         \<and> inputs env (definitions schema) = Inr is
         \<and> enums env (definitions schema) = Inr es
         \<and> types env (definitions schema) = Inr ts
         \<and> queryOperations env (definitions schema) = Inr qs
         \<and> mutationOperations env (definitions schema) = Inr ms"
  using assms by (auto simp: generate_def split: sum.splits)

lemma inputs_Inr:
  "inputs env defs = Inr fl \<Longrightarrow>
   \<exists>rs. inputRecords defs = Inr rs \<and>
        fl = map (\<lambda>input. \<lparr>filename = ''inputs/'' @ obj_name input @ ''.ts'',
                            contents = inputTemplate env input\<rparr>) rs"
  by (auto simp: inputs_def split: sum.splits)

lemma enums_Inr:
  "enums env defs = Inr fl \<Longrightarrow>
   \<exists>rs. enumRecords defs = Inr rs \<and>
        fl = map (\<lambda>enumType. \<lparr>filename = ''types/'' @ enum_name enumType @ ''.ts'',
                               contents = enumTemplate env enumType\<rparr>) rs"
  by (auto simp: enums_def split: sum.splits)

lemma types_Inr:
  "types env defs = Inr fl \<Longrightarrow>
   \<exists>rs. typeRecords defs = Inr rs \<and>
        fl = map (\<lambda>type. \<lparr>filename = ''types/'' @ obj_name type @ ''.ts'',
                           contents = typeTemplate env type\<rparr>) rs"
  by (auto simp: types_def split: sum.splits)

lemma queryOperations_Inr:
  "queryOperations env defs = Inr fl \<Longrightarrow>
   \<exists>ops. operationRecords ''Query'' defs = Inr ops \<and>
        fl = map (\<lambda>op. \<lparr>filename = ''resolvers/queries/'' @ op_name op @ ''.ts'',
                         contents = resolverTemplate env op\<rparr>) ops"
  by (auto simp: queryOperations_def split: sum.splits)

lemma mutationOperations_Inr:
  "mutationOperations env defs = Inr fl \<Longrightarrow>
   \<exists>ops. operationRecords ''Mutation'' defs = Inr ops \<and>
        fl = map (\<lambda>op. \<lparr>filename = ''resolvers/mutations/'' @ op_name op @ ''.ts'',
                         contents = resolverTemplate env op\<rparr>) ops"
  by (auto simp: mutationOperations_def split: sum.splits)







section \<open>The sample schema, evaluated\<close>

lemmas mapper_defs = scalarMapped_def getProperty_def scalarMap_def objectPrototypeKeys_def

lemma typeRecords_sample:
  "typeRecords (definitions sampleSchema) =
     Inr [\<lparr>obj_name = ''Widget'', obj_description = [],
           obj_fields =
             [\<lparr>field_name = ''id'', field_description = [], field_graphqlType = ''ID'',
               field_isNullable = False, field_isArray = False, field_type = JString ''string''\<rparr>,
              \<lparr>field_name = ''name'', field_description = [], field_graphqlType = ''String'',
               field_isNullable = True, field_isArray = False, field_type = JString ''string''\<rparr>,
              \<lparr>field_name = ''tags'', field_description = [], field_graphqlType = ''String'',
               field_isNullable = True, field_isArray = True, field_type = JString ''string''\<rparr>]\<rparr>]"
  by (simp add: sample_defs extractor_defs mapper_defs)

lemma generate_sample:
  "generate sampleEnv sampleSchema =
     Inr [\<lparr>filename = ''inputs/WidgetInput.ts'', contents = ''WidgetInput''\<rparr>,
          \<lparr>filename = ''types/Color.ts'', contents = ''Color''\<rparr>,
          \<lparr>filename = ''types/Widget.ts'', contents = ''Widget''\<rparr>,
          \<lparr>filename = ''resolvers/queries/widgets.ts'', contents = ''widgets''\<rparr>,
          \<lparr>filename = ''resolvers/mutations/createWidget.ts'', contents = ''createWidget''\<rparr>]"
  by (simp add: sample_defs extractor_defs mapper_defs)

lemma typeRecords_reserved:
  "typeRecords (definitions reservedSchema) =
     Inr [\<lparr>obj_name = ''Widget'', obj_description = [],
           obj_fields =
             [\<lparr>field_name = ''id'', field_description = [], field_graphqlType = ''ID'',
               field_isNullable = False, field_isArray = False, field_type = JString ''string''\<rparr>,
              \<lparr>field_name = ''name'', field_description = [], field_graphqlType = ''String'',
               field_isNullable = True, field_isArray = False, field_type = JString ''string''\<rparr>,
              \<lparr>field_name = ''tags'', field_description = [], field_graphqlType = ''String'',
               field_isNullable = True, field_isArray = True, field_type = JString ''string''\<rparr>]\<rparr>]"
  by (simp add: sample_defs extractor_defs mapper_defs)

theorem reserved_names_excluded_witness:
  "map d_kind (definitions reservedSchema) =
     [''ObjectTypeDefinition'', ''ObjectTypeDefinition'', ''ObjectTypeDefinition'',
      ''ObjectTypeDefinition'', ''ObjectTypeDefinition'']
   \<and> map d_name (definitions reservedSchema) =
     [Some ''Subscription'', Some ''Query'', Some ''Widget'', Some ''root'', Some ''Mutation'']
   \<and> (\<exists>r. typeRecords (definitions reservedSchema) = Inr [r]
          \<and> obj_name r = ''Widget''
          \<and> obj_name r \<noteq> ''Query'' \<and> obj_name r \<noteq> ''Mutation''
          \<and> obj_name r \<noteq> ''Subscription'' \<and> obj_name r \<noteq> ''root'')"
proof -
  have k: "map d_kind (definitions reservedSchema) =
     [''ObjectTypeDefinition'', ''ObjectTypeDefinition'', ''ObjectTypeDefinition'',
      ''ObjectTypeDefinition'', ''ObjectTypeDefinition'']"
    by (simp add: sample_defs)
  have n: "map d_name (definitions reservedSchema) =
     [Some ''Subscription'', Some ''Query'', Some ''Widget'', Some ''root'', Some ''Mutation'']"
    by (simp add: sample_defs)
  obtain r where r: "typeRecords (definitions reservedSchema) = Inr [r]" "obj_name r = ''Widget''"
    using typeRecords_reserved by simp
  have "r \<in> set [r]" by simp
  from reserved_names_excluded[OF r(1) this] r
  have "\<exists>r. typeRecords (definitions reservedSchema) = Inr [r]
          \<and> obj_name r = ''Widget''
          \<and> obj_name r \<noteq> ''Query'' \<and> obj_name r \<noteq> ''Mutation''
          \<and> obj_name r \<noteq> ''Subscription'' \<and> obj_name r \<noteq> ''root''"
    by (intro exI[of _ r]) simp
  with k n show ?thesis by simp
qed


section \<open>Output paths\<close>

lemma inputs_filenames:
  assumes "inputs env defs = Inr fl"
  shows "map filename fl =
           map (\<lambda>d. ''inputs/'' @ nameOf d @ ''.ts'')
             (filter (\<lambda>d. d_kind d = ''InputObjectTypeDefinition'') defs)"
proof -
  from inputs_Inr[OF assms] obtain rs where rs: "inputRecords defs = Inr rs"
    and fl: "fl = map (\<lambda>input. \<lparr>filename = ''inputs/'' @ obj_name input @ ''.ts'',
                            contents = inputTemplate env input\<rparr>) rs" by blast
  have "map (\<lambda>r. ''inputs/'' @ obj_name r @ ''.ts'') rs =
        map (\<lambda>d. ''inputs/'' @ nameOf d @ ''.ts'')
          (filter (\<lambda>d. d_kind d = ''InputObjectTypeDefinition'') defs)"
    using rs unfolding inputRecords_def
    by (rule mapE_Inr_map) (auto simp: nameOf_def dest: objectRecord_name)
  then show ?thesis by (simp add: fl comp_def)
qed

lemma enums_filenames:
  assumes "enums env defs = Inr fl"
  shows "map filename fl =
           map (\<lambda>d. ''types/'' @ nameOf d @ ''.ts'')
             (filter (\<lambda>d. d_kind d = ''EnumTypeDefinition'') defs)"
proof -
  from enums_Inr[OF assms] obtain rs where rs: "enumRecords defs = Inr rs"
    and fl: "fl = map (\<lambda>enumType. \<lparr>filename = ''types/'' @ enum_name enumType @ ''.ts'',
                               contents = enumTemplate env enumType\<rparr>) rs" by blast
  have "map (\<lambda>r. ''types/'' @ enum_name r @ ''.ts'') rs =
        map (\<lambda>d. ''types/'' @ nameOf d @ ''.ts'')
          (filter (\<lambda>d. d_kind d = ''EnumTypeDefinition'') defs)"
    using rs unfolding enumRecords_def
    by (rule mapE_Inr_map) (auto simp: nameOf_def dest: enumRecord_name)
  then show ?thesis by (simp add: fl comp_def)
qed

lemma types_filenames:
  assumes "types env defs = Inr fl"
  shows "map filename fl =
           map (\<lambda>d. ''types/'' @ nameOf d @ ''.ts'') (filter isPlainObjectType defs)"
proof -
  from types_Inr[OF assms] obtain rs where rs: "typeRecords defs = Inr rs"
    and fl: "fl = map (\<lambda>type. \<lparr>filename = ''types/'' @ obj_name type @ ''.ts'',
                           contents = typeTemplate env type\<rparr>) rs" by blast
  have "map (\<lambda>r. ''types/'' @ obj_name r @ ''.ts'') rs =
        map (\<lambda>d. ''types/'' @ nameOf d @ ''.ts'') (filter isPlainObjectType defs)"
    using typeRecords_Inr[OF rs]
    by (rule mapE_Inr_map) (auto simp: nameOf_def dest: objectRecord_name)
  then show ?thesis by (simp add: fl comp_def)
qed

lemma operationRecords_names:
  assumes "operationRecords name defs = Inr ops"
  shows "\<exists>d fs. find (\<lambda>x. d_name x = Some name) defs = Some d \<and> d_fields d = Some fs
             \<and> map op_name ops = map f_name fs"
proof -
  from operationRecords_Inr[OF assms] obtain fs
    where fs: "rootFields name defs = Inr (Some fs)" "mapE operationRecord fs = Inr ops" by blast
  from rootFields_Inr[OF fs(1)] obtain d
    where d: "find (\<lambda>x. d_name x = Some name) defs = Some d" "d_fields d = Some fs" by blast
  have "map op_name ops = map f_name fs"
    using fs(2) by (rule mapE_Inr_map) (auto dest: operationRecord_name)
  with d show ?thesis by blast
qed

lemma queryOperations_filenames:
  assumes "queryOperations env defs = Inr fl"
  shows "\<exists>d fs. find (\<lambda>x. d_name x = Some ''Query'') defs = Some d \<and> d_fields d = Some fs
             \<and> map filename fl = map (\<lambda>f. ''resolvers/queries/'' @ f_name f @ ''.ts'') fs"
proof -
  from queryOperations_Inr[OF assms] obtain ops where ops: "operationRecords ''Query'' defs = Inr ops"
    and fl: "fl = map (\<lambda>op. \<lparr>filename = ''resolvers/queries/'' @ op_name op @ ''.ts'',
                         contents = resolverTemplate env op\<rparr>) ops" by blast
  from operationRecords_names[OF ops] obtain d fs
    where d: "find (\<lambda>x. d_name x = Some ''Query'') defs = Some d" "d_fields d = Some fs"
      and n: "map op_name ops = map f_name fs" by blast
  have "map filename fl = map (\<lambda>n. ''resolvers/queries/'' @ n @ ''.ts'') (map op_name ops)"
    by (simp add: fl comp_def)
  also have "\<dots> = map (\<lambda>f. ''resolvers/queries/'' @ f_name f @ ''.ts'') fs"
    by (simp add: n comp_def)
  finally show ?thesis using d by blast
qed

lemma mutationOperations_filenames:
  assumes "mutationOperations env defs = Inr fl"
  shows "\<exists>d fs. find (\<lambda>x. d_name x = Some ''Mutation'') defs = Some d \<and> d_fields d = Some fs
             \<and> map filename fl = map (\<lambda>f. ''resolvers/mutations/'' @ f_name f @ ''.ts'') fs"
proof -
  from mutationOperations_Inr[OF assms] obtain ops where ops: "operationRecords ''Mutation'' defs = Inr ops"
    and fl: "fl = map (\<lambda>op. \<lparr>filename = ''resolvers/mutations/'' @ op_name op @ ''.ts'',
                         contents = resolverTemplate env op\<rparr>) ops" by blast
  from operationRecords_names[OF ops] obtain d fs
    where d: "find (\<lambda>x. d_name x = Some ''Mutation'') defs = Some d" "d_fields d = Some fs"
      and n: "map op_name ops = map f_name fs" by blast
  have "map filename fl = map (\<lambda>n. ''resolvers/mutations/'' @ n @ ''.ts'') (map op_name ops)"
    by (simp add: fl comp_def)
  also have "\<dots> = map (\<lambda>f. ''resolvers/mutations/'' @ f_name f @ ''.ts'') fs"
    by (simp add: n comp_def)
  finally show ?thesis using d by blast
qed

text \<open>
  The path of a generated file is not the category's directory followed by the bare
  name: the input type \<^verbatim>\<open>WidgetInput\<close> is written to \<^verbatim>\<open>inputs/WidgetInput.ts\<close>.
\<close>

theorem output_path_has_extension:
  "inputs sampleEnv (definitions sampleSchema) =
     Inr [\<lparr>filename = ''inputs/WidgetInput.ts'', contents = ''WidgetInput''\<rparr>]
   \<and> nameOf widgetInputDef = ''WidgetInput''
   \<and> ''inputs/WidgetInput.ts'' \<noteq> ''inputs/'' @ nameOf widgetInputDef"
  by (simp add: sample_defs extractor_defs mapper_defs nameOf_def)

text \<open>
  C7. The relative path of every generated file is the fixed directory of its
  category, then the artifact's own name, then the fixed extension \<^verbatim>\<open>.ts\<close>: input
  types under \<^verbatim>\<open>inputs/\<close>, enum types and object types under \<^verbatim>\<open>types/\<close>, query
  operations under \<^verbatim>\<open>resolvers/queries/\<close> and mutation operations under
  \<^verbatim>\<open>resolvers/mutations/\<close>. The names are those of the selected definitions and of
  the fields of the two roots, in document order.
\<close>

theorem output_paths:
  assumes "generate env schema = Inr fl"
  shows "\<exists>q qs m ms.
           find (\<lambda>x. d_name x = Some ''Query'') (definitions schema) = Some q
         \<and> d_fields q = Some qs
         \<and> find (\<lambda>x. d_name x = Some ''Mutation'') (definitions schema) = Some m
         \<and> d_fields m = Some ms
         \<and> map filename fl =
             map (\<lambda>d. ''inputs/'' @ nameOf d @ ''.ts'')
               (filter (\<lambda>d. d_kind d = ''InputObjectTypeDefinition'') (definitions schema))
           @ map (\<lambda>d. ''types/'' @ nameOf d @ ''.ts'')
               (filter (\<lambda>d. d_kind d = ''EnumTypeDefinition'') (definitions schema))
           @ map (\<lambda>d. ''types/'' @ nameOf d @ ''.ts'')
               (filter isPlainObjectType (definitions schema))
           @ map (\<lambda>f. ''resolvers/queries/'' @ f_name f @ ''.ts'') qs
           @ map (\<lambda>f. ''resolvers/mutations/'' @ f_name f @ ''.ts'') ms"
proof -
  from generate_Inr[OF assms] obtain "is" es ts qf mf where
    fl: "fl = is @ es @ ts @ qf @ mf"
    and i: "inputs env (definitions schema) = Inr is"
    and e: "enums env (definitions schema) = Inr es"
    and t: "types env (definitions schema) = Inr ts"
    and q: "queryOperations env (definitions schema) = Inr qf"
    and m: "mutationOperations env (definitions schema) = Inr mf"
    by blast
  from queryOperations_filenames[OF q] obtain qd qs where
    qd: "find (\<lambda>x. d_name x = Some ''Query'') (definitions schema) = Some qd" "d_fields qd = Some qs"
    and qn: "map filename qf = map (\<lambda>f. ''resolvers/queries/'' @ f_name f @ ''.ts'') qs" by blast
  from mutationOperations_filenames[OF m] obtain md ms where
    md: "find (\<lambda>x. d_name x = Some ''Mutation'') (definitions schema) = Some md" "d_fields md = Some ms"
    and mn: "map filename mf = map (\<lambda>f. ''resolvers/mutations/'' @ f_name f @ ''.ts'') ms" by blast
  have "map filename fl =
             map (\<lambda>d. ''inputs/'' @ nameOf d @ ''.ts'')
               (filter (\<lambda>d. d_kind d = ''InputObjectTypeDefinition'') (definitions schema))
           @ map (\<lambda>d. ''types/'' @ nameOf d @ ''.ts'')
               (filter (\<lambda>d. d_kind d = ''EnumTypeDefinition'') (definitions schema))
           @ map (\<lambda>d. ''types/'' @ nameOf d @ ''.ts'')
               (filter isPlainObjectType (definitions schema))
           @ map (\<lambda>f. ''resolvers/queries/'' @ f_name f @ ''.ts'') qs
           @ map (\<lambda>f. ''resolvers/mutations/'' @ f_name f @ ''.ts'') ms"
    unfolding fl map_append inputs_filenames[OF i] enums_filenames[OF e] types_filenames[OF t] qn mn
    by (rule refl)
  with qd md show ?thesis by blast
qed

theorem output_paths_witness:
  "\<exists>fl. generate sampleEnv sampleSchema = Inr fl
      \<and> map filename fl =
          [''inputs/WidgetInput.ts'', ''types/Color.ts'', ''types/Widget.ts'',
           ''resolvers/queries/widgets.ts'', ''resolvers/mutations/createWidget.ts'']"
proof -
  obtain fl where fl: "generate sampleEnv sampleSchema = Inr fl"
    using generate_sample by simp
  from output_paths[OF fl] have "map filename fl =
          [''inputs/WidgetInput.ts'', ''types/Color.ts'', ''types/Widget.ts'',
           ''resolvers/queries/widgets.ts'', ''resolvers/mutations/createWidget.ts'']"
    by (auto simp: sample_defs nameOf_def isPlainObjectType_def graphqlArtifactNames_def)
  with fl show ?thesis by (intro exI[of _ fl]) simp
qed

section \<open>Running the command twice\<close>

lemma ancestorDirs_self: "dir \<in> set (ancestorDirs dirname n dir)"
  by (cases n) simp_all

lemma writeFile_files:
  "files (writeFile env out fs file) =
     (files fs)(path_resolve env out (filename file) \<mapsto> contents file)"
  by (simp add: writeFile_def mkdirSync_def Let_def)

lemma writeFile_dirs_mono: "dirs fs \<subseteq> dirs (writeFile env out fs file)"
  by (auto simp: writeFile_def mkdirSync_def Let_def)

lemma writeFile_dir_exists:
  "path_dirname env (path_resolve env out (filename file)) \<in> dirs (writeFile env out fs file)"
  by (simp add: writeFile_def mkdirSync_def Let_def ancestorDirs_self)

lemma writeFile_dirs_same:
  "path_dirname env (path_resolve env out (filename file)) \<in> dirs fs \<Longrightarrow>
   dirs (writeFile env out fs file) = dirs fs"
  by (simp add: writeFile_def Let_def)

lemma foldl_writeFile_dirs_mono: "dirs fs \<subseteq> dirs (foldl (writeFile env out) fs fl)"
proof (induction fl arbitrary: fs)
  case Nil
  then show ?case by simp
next
  case (Cons f fl)
  have "dirs fs \<subseteq> dirs (writeFile env out fs f)" by (rule writeFile_dirs_mono)
  also have "\<dots> \<subseteq> dirs (foldl (writeFile env out) (writeFile env out fs f) fl)" by (rule Cons.IH)
  finally show ?case by simp
qed

lemma foldl_writeFile_dirs_exist:
  "f \<in> set fl \<Longrightarrow>
   path_dirname env (path_resolve env out (filename f)) \<in> dirs (foldl (writeFile env out) fs fl)"
proof (induction fl arbitrary: fs)
  case Nil
  then show ?case by simp
next
  case (Cons g fl)
  show ?case
  proof (cases "f = g")
    case True
    have "path_dirname env (path_resolve env out (filename g)) \<in> dirs (writeFile env out fs g)"
      by (rule writeFile_dir_exists)
    with True show ?thesis
      using foldl_writeFile_dirs_mono[of "writeFile env out fs g" env out fl] by auto
  next
    case False
    with Cons.prems have "f \<in> set fl" by simp
    then show ?thesis using Cons.IH by simp
  qed
qed

lemma foldl_writeFile_dirs_same:
  "(\<And>f. f \<in> set fl \<Longrightarrow> path_dirname env (path_resolve env out (filename f)) \<in> dirs fs) \<Longrightarrow>
   dirs (foldl (writeFile env out) fs fl) = dirs fs"
proof (induction fl arbitrary: fs)
  case Nil
  then show ?case by simp
next
  case (Cons g fl)
  have g: "dirs (writeFile env out fs g) = dirs fs"
    by (rule writeFile_dirs_same) (simp add: Cons.prems)
  have "dirs (foldl (writeFile env out) (writeFile env out fs g) fl) = dirs (writeFile env out fs g)"
    by (rule Cons.IH) (simp add: g Cons.prems)
  with g show ?case by simp
qed

lemma foldl_writeFile_files:
  "files (foldl (writeFile env out) fs fl) =
     files fs ++ map_of (rev (map (\<lambda>f. (path_resolve env out (filename f), contents f)) fl))"
  by (induction fl arbitrary: fs) (simp_all add: writeFile_files)

lemma map_add_twice: "(m ++ g) ++ g = m ++ g"
  by (rule ext) (simp add: map_add_def split: option.splits)

lemma foldl_writeFile_twice:
  "foldl (writeFile env out) (foldl (writeFile env out) fs fl) fl = foldl (writeFile env out) fs fl"
proof (rule filesystem.equality)
  show "dirs (foldl (writeFile env out) (foldl (writeFile env out) fs fl) fl) =
        dirs (foldl (writeFile env out) fs fl)"
    by (rule foldl_writeFile_dirs_same) (rule foldl_writeFile_dirs_exist)
  show "files (foldl (writeFile env out) (foldl (writeFile env out) fs fl) fl) =
        files (foldl (writeFile env out) fs fl)"
    by (simp add: foldl_writeFile_files map_add_twice)
  show "filesystem.more (foldl (writeFile env out) (foldl (writeFile env out) fs fl) fl) =
        filesystem.more (foldl (writeFile env out) fs fl)"
    by simp
qed

lemma sample_paths:
  "path_resolve sampleEnv = joinPath" "path_dirname sampleEnv = parentPath"
  by (simp_all add: sampleEnv_def)

lemma sample_parentPath:
  "parentPath ''out/inputs/WidgetInput.ts'' = ''out/inputs''"
  "parentPath ''out/types/Color.ts'' = ''out/types''"
  "parentPath ''out/types/Widget.ts'' = ''out/types''"
  "parentPath ''out/resolvers/queries/widgets.ts'' = ''out/resolvers/queries''"
  "parentPath ''out/resolvers/mutations/createWidget.ts'' = ''out/resolvers/mutations''"
  by (simp_all add: parentPath_def)

lemma sample_mkdirSync:
  "mkdirSync sampleEnv ''out/inputs'' fs =
     fs\<lparr>dirs := dirs fs \<union> {''out/inputs'', ''out'', ''.''}\<rparr>"
  "mkdirSync sampleEnv ''out/types'' fs =
     fs\<lparr>dirs := dirs fs \<union> {''out/types'', ''out'', ''.''}\<rparr>"
  "mkdirSync sampleEnv ''out/resolvers/queries'' fs =
     fs\<lparr>dirs := dirs fs \<union> {''out/resolvers/queries'', ''out/resolvers'', ''out'', ''.''}\<rparr>"
  "mkdirSync sampleEnv ''out/resolvers/mutations'' fs =
     fs\<lparr>dirs := dirs fs \<union> {''out/resolvers/mutations'', ''out/resolvers'', ''out'', ''.''}\<rparr>"
  by (auto simp add: mkdirSync_def sampleEnv_def parentPath_def)

text \<open>
  C8. Generation is deterministic and idempotent at the file level. \<open>generate\<close> is a
  function of the templates and the parsed schema and reads nothing else, so two calls
  on the same schema return the same list of paths and contents. Running the command a
  second time, on the file system the first run left, ends with the same result and the
  same file system: every path holds the same contents as after the first run.
\<close>

theorem run_idempotent:
  "run env schema outputDirectory (fst (run env schema outputDirectory fs)) =
     run env schema outputDirectory fs"
  by (cases "generate env schema") (simp_all add: run_def foldl_writeFile_twice)

theorem run_idempotent_witness:
  "run sampleEnv sampleSchema ''out'' (fst (run sampleEnv sampleSchema ''out'' emptyFs)) =
     run sampleEnv sampleSchema ''out'' emptyFs
   \<and> snd (run sampleEnv sampleSchema ''out'' emptyFs) = None
   \<and> files (fst (run sampleEnv sampleSchema ''out'' emptyFs)) ''out/types/Widget.ts'' = Some ''Widget''
   \<and> dirs (fst (run sampleEnv sampleSchema ''out'' emptyFs)) =
       {''out/inputs'', ''out/types'', ''out/resolvers/queries'', ''out/resolvers/mutations'',
        ''out/resolvers'', ''out'', ''.''}"
proof -
  have f: "files (fst (run sampleEnv sampleSchema ''out'' emptyFs)) ''out/types/Widget.ts'' =
             Some ''Widget''"
    by (simp add: run_def generate_sample writeFile_files sample_paths joinPath_def)
  have d: "dirs (fst (run sampleEnv sampleSchema ''out'' emptyFs)) =
       {''out/inputs'', ''out/types'', ''out/resolvers/queries'', ''out/resolvers/mutations'',
        ''out/resolvers'', ''out'', ''.''}"
    by (simp add: run_def generate_sample writeFile_def sample_paths joinPath_def
          sample_parentPath sample_mkdirSync emptyFs_def Let_def) auto
  have n: "snd (run sampleEnv sampleSchema ''out'' emptyFs) = None"
    by (simp add: run_def generate_sample)
  from run_idempotent[of sampleEnv sampleSchema "''out''" emptyFs] f d n
  show ?thesis by simp
qed

section \<open>Descriptions\<close>

lemma mapE_list_all2: "mapE f xs = Inr ys \<Longrightarrow> list_all2 (\<lambda>x y. f x = Inr y) xs ys"
  by (induction xs arbitrary: ys) (auto split: sum.splits)

lemma fieldRecord_description:
  "fieldRecord f = Inr r \<Longrightarrow> f_description f = None \<Longrightarrow> field_description r = []"
  by (auto simp: fieldRecord_def descriptionValue_def split: sum.splits)

lemma argumentRecord_description:
  "argumentRecord a = Inr r \<Longrightarrow> a_description a = None \<Longrightarrow> field_description r = []"
  by (auto simp: argumentRecord_def descriptionValue_def split: sum.splits)

lemma enumValueRecord_description:
  "v_description v = None \<Longrightarrow> value_description (enumValueRecord v) = []"
  by (simp add: enumValueRecord_def descriptionValue_def)

lemma objectRecord_description:
  assumes "objectRecord d = Inr r"
  shows "(d_description d = None \<longrightarrow> obj_description r = [])
       \<and> (\<exists>fs. d_fields d = Some fs
            \<and> list_all2 (\<lambda>f fr. f_description f = None \<longrightarrow> field_description fr = [])
                 fs (obj_fields r))"
proof -
  from assms obtain n fs rs where fs: "d_fields d = Some fs" "mapE fieldRecord fs = Inr rs"
    and r: "r = \<lparr>obj_name = n, obj_description = descriptionValue (d_description d), obj_fields = rs\<rparr>"
    by (auto simp: objectRecord_def split: option.splits sum.splits)
  have "list_all2 (\<lambda>f fr. f_description f = None \<longrightarrow> field_description fr = []) fs rs"
    using mapE_list_all2[OF fs(2)]
    by (rule list_all2_mono) (simp add: fieldRecord_description)
  with fs(1) r show ?thesis by (simp add: descriptionValue_def)
qed

lemma enumRecord_description:
  assumes "enumRecord d = Inr r"
  shows "(d_description d = None \<longrightarrow> enum_description r = [])
       \<and> (\<exists>vs. d_values d = Some vs
            \<and> list_all2 (\<lambda>v vr. v_description v = None \<longrightarrow> value_description vr = [])
                 vs (enum_values r))"
proof -
  from assms obtain n vs where vs: "d_values d = Some vs"
    and r: "r = \<lparr>enum_name = n, enum_description = descriptionValue (d_description d),
                  enum_values = map enumValueRecord vs\<rparr>"
    by (auto simp: enumRecord_def split: option.splits)
  have "list_all2 (\<lambda>v vr. v_description v = None \<longrightarrow> value_description vr = [])
          vs (map enumValueRecord vs)"
    by (simp add: list_all2_map2 list_all2_same enumValueRecord_description)
  with vs r show ?thesis by (simp add: descriptionValue_def)
qed

lemma operationRecord_description:
  assumes "operationRecord f = Inr r"
  shows "(f_description f = None \<longrightarrow> op_description r = [])
       \<and> (\<exists>args. f_arguments f = Some args
            \<and> list_all2 (\<lambda>a ar. a_description a = None \<longrightarrow> field_description ar = [])
                 args (op_arguments r))"
proof -
  from assms obtain args rs where args: "f_arguments f = Some args" "mapE argumentRecord args = Inr rs"
    and r: "op_description r = descriptionValue (f_description f)" "op_arguments r = rs"
    by (auto simp: operationRecord_def split: option.splits sum.splits)
  have "list_all2 (\<lambda>a ar. a_description a = None \<longrightarrow> field_description ar = []) args rs"
    using mapE_list_all2[OF args(2)]
    by (rule list_all2_mono) (simp add: argumentRecord_description)
  with args(1) r show ?thesis by (simp add: descriptionValue_def)
qed

text \<open>
  C9. Whenever a type definition, an input definition, an enum definition, a field, an
  operation, an argument or an enum value has no description in the syntax tree, the
  description of the record generated for it is the empty string. The records of each
  category correspond, position by position, to the selected definitions, and the
  records nested in them to the definition's fields, values or arguments.
\<close>

theorem absent_description_is_empty:
  "(typeRecords defs = Inr ts \<longrightarrow>
      list_all2 (\<lambda>d r. (d_description d = None \<longrightarrow> obj_description r = [])
                    \<and> (\<exists>fs. d_fields d = Some fs
                         \<and> list_all2 (\<lambda>f fr. f_description f = None \<longrightarrow> field_description fr = [])
                              fs (obj_fields r)))
        (filter isPlainObjectType defs) ts)
 \<and> (inputRecords defs = Inr ins \<longrightarrow>
      list_all2 (\<lambda>d r. (d_description d = None \<longrightarrow> obj_description r = [])
                    \<and> (\<exists>fs. d_fields d = Some fs
                         \<and> list_all2 (\<lambda>f fr. f_description f = None \<longrightarrow> field_description fr = [])
                              fs (obj_fields r)))
        (filter (\<lambda>d. d_kind d = ''InputObjectTypeDefinition'') defs) ins)
 \<and> (enumRecords defs = Inr es \<longrightarrow>
      list_all2 (\<lambda>d r. (d_description d = None \<longrightarrow> enum_description r = [])
                    \<and> (\<exists>vs. d_values d = Some vs
                         \<and> list_all2 (\<lambda>v vr. v_description v = None \<longrightarrow> value_description vr = [])
                              vs (enum_values r)))
        (filter (\<lambda>d. d_kind d = ''EnumTypeDefinition'') defs) es)
 \<and> (operationRecords name defs = Inr ops \<longrightarrow>
      (\<exists>fs. rootFields name defs = Inr (Some fs)
         \<and> list_all2 (\<lambda>f r. (f_description f = None \<longrightarrow> op_description r = [])
                    \<and> (\<exists>args. f_arguments f = Some args
                         \<and> list_all2 (\<lambda>a ar. a_description a = None \<longrightarrow> field_description ar = [])
                              args (op_arguments r)))
              fs ops))"
proof (intro conjI impI)
  assume "typeRecords defs = Inr ts"
  from mapE_list_all2[OF typeRecords_Inr[OF this]]
  show "list_all2 (\<lambda>d r. (d_description d = None \<longrightarrow> obj_description r = [])
                    \<and> (\<exists>fs. d_fields d = Some fs
                         \<and> list_all2 (\<lambda>f fr. f_description f = None \<longrightarrow> field_description fr = [])
                              fs (obj_fields r)))
        (filter isPlainObjectType defs) ts"
    by (rule list_all2_mono) (rule objectRecord_description)
next
  assume "inputRecords defs = Inr ins"
  from mapE_list_all2[OF this[unfolded inputRecords_def]]
  show "list_all2 (\<lambda>d r. (d_description d = None \<longrightarrow> obj_description r = [])
                    \<and> (\<exists>fs. d_fields d = Some fs
                         \<and> list_all2 (\<lambda>f fr. f_description f = None \<longrightarrow> field_description fr = [])
                              fs (obj_fields r)))
        (filter (\<lambda>d. d_kind d = ''InputObjectTypeDefinition'') defs) ins"
    by (rule list_all2_mono) (rule objectRecord_description)
next
  assume "enumRecords defs = Inr es"
  from mapE_list_all2[OF this[unfolded enumRecords_def]]
  show "list_all2 (\<lambda>d r. (d_description d = None \<longrightarrow> enum_description r = [])
                    \<and> (\<exists>vs. d_values d = Some vs
                         \<and> list_all2 (\<lambda>v vr. v_description v = None \<longrightarrow> value_description vr = [])
                              vs (enum_values r)))
        (filter (\<lambda>d. d_kind d = ''EnumTypeDefinition'') defs) es"
    by (rule list_all2_mono) (rule enumRecord_description)
next
  assume "operationRecords name defs = Inr ops"
  from operationRecords_Inr[OF this] obtain fs
    where fs: "rootFields name defs = Inr (Some fs)" "mapE operationRecord fs = Inr ops" by blast
  have "list_all2 (\<lambda>f r. (f_description f = None \<longrightarrow> op_description r = [])
                    \<and> (\<exists>args. f_arguments f = Some args
                         \<and> list_all2 (\<lambda>a ar. a_description a = None \<longrightarrow> field_description ar = [])
                              args (op_arguments r)))
              fs ops"
    using mapE_list_all2[OF fs(2)]
    by (rule list_all2_mono) (rule operationRecord_description)
  with fs(1) show "\<exists>fs. rootFields name defs = Inr (Some fs)
         \<and> list_all2 (\<lambda>f r. (f_description f = None \<longrightarrow> op_description r = [])
                    \<and> (\<exists>args. f_arguments f = Some args
                         \<and> list_all2 (\<lambda>a ar. a_description a = None \<longrightarrow> field_description ar = [])
                              args (op_arguments r)))
              fs ops"
    by blast
qed

theorem absent_description_is_empty_witness:
  "\<exists>r. typeRecords (definitions sampleSchema) = Inr [r]
      \<and> d_description widgetDef = None
      \<and> obj_description r = []
      \<and> map field_description (obj_fields r) = [[], [], []]"
proof -
  obtain r where r: "typeRecords (definitions sampleSchema) = Inr [r]"
    using typeRecords_sample by simp
  have f: "filter isPlainObjectType (definitions sampleSchema) = [widgetDef]"
    by (simp add: sample_defs isPlainObjectType_def graphqlArtifactNames_def)
  have d: "d_description widgetDef = None"
    by (simp add: sample_defs)
  from absent_description_is_empty[of "definitions sampleSchema" "[r]"] r f d
  have "obj_description r = []" by simp
  moreover have "map field_description (obj_fields r) = [[], [], []]"
    using r typeRecords_sample by auto
  ultimately show ?thesis using r d by (intro exI[of _ r]) simp
qed

section \<open>Selection of the root containers\<close>

lemma rootFields_first_named:
  assumes "\<forall>x\<in>set (pre @ post). d_name x \<noteq> None"
    and "\<forall>x\<in>set pre. d_name x \<noteq> Some root"
    and "d_name d = Some root"
  shows "rootFields root (pre @ d # post) = Inr (d_fields d)"
proof -
  have "\<forall>x\<in>set (pre @ d # post). d_name x \<noteq> None"
    using assms(1,3) by auto
  then have "filterE (isNamed root) (pre @ d # post) =
               Inr (filter (\<lambda>x. d_name x = Some root) (pre @ d # post))"
    by (rule filterE_isNamed_all_named)
  moreover have "filter (\<lambda>x. d_name x = Some root) pre = []"
    using assms(2) by (simp add: filter_empty_conv)
  ultimately show ?thesis
    using assms(3) by (simp add: rootFields_def)
qed

text \<open>
  C10. The query root (the mutation root) is the first definition of the document named
  \<^verbatim>\<open>Query\<close> (\<^verbatim>\<open>Mutation\<close>), whatever its kind, and later definitions of that name
  are ignored: when every definition carries a name, so that the filter runs to its end,
  the fields taken are those of the first definition with the root's name, and the
  operations are those extracted from that definition alone.
\<close>

theorem root_is_first_named:
  assumes "\<forall>x\<in>set (pre @ post). d_name x \<noteq> None"
    and "\<forall>x\<in>set pre. d_name x \<noteq> Some root"
    and "d_name d = Some root"
  shows "rootFields root (pre @ d # post) = Inr (d_fields d)
       \<and> operationRecords root (pre @ d # post) = operationRecords root [d]"
proof -
  have a: "rootFields root (pre @ d # post) = Inr (d_fields d)"
    using assms by (rule rootFields_first_named)
  have "rootFields root ([] @ d # []) = Inr (d_fields d)"
    using assms(3) by (intro rootFields_first_named) simp_all
  with a show ?thesis by (simp add: operationRecords_def)
qed

theorem root_is_first_named_witness:
  "rootFields ''Query'' [widgetInputDef, queryInterfaceDef, queryDef, mutationDef] =
     Inr (Some [plainField ''ping'' (NamedType ''Int'') (Some [])])
   \<and> d_kind queryInterfaceDef = ''InterfaceTypeDefinition''
   \<and> queryOperations sampleEnv [widgetInputDef, queryInterfaceDef, queryDef, mutationDef] =
       Inr [\<lparr>filename = ''resolvers/queries/ping.ts'', contents = ''ping''\<rparr>]"
proof -
  have 1: "\<forall>x\<in>set ([widgetInputDef] @ [queryDef, mutationDef]). d_name x \<noteq> None"
    by (simp add: sample_defs)
  have 2: "\<forall>x\<in>set [widgetInputDef]. d_name x \<noteq> Some ''Query''"
    by (simp add: sample_defs)
  have 3: "d_name queryInterfaceDef = Some ''Query''"
    by (simp add: sample_defs)
  have 4: "operationRecords ''Query'' [queryInterfaceDef] =
             Inr [\<lparr>op_name = ''ping'', op_description = [], op_graphqlType = ''Int'',
                   op_type = JString ''number'', op_isNullable = True, op_isArray = False,
                   op_arguments = [], op_hasArguments = False\<rparr>]"
    by (simp add: sample_defs extractor_defs mapper_defs)
  from root_is_first_named[OF 1 2 3] 4 show ?thesis
    by (simp add: queryOperations_def) (simp add: sample_defs)
qed

end
